theory Spec2Isabelle
  imports Main "HOL-Library.Word"
begin

section \<open>Python values, exceptions and the name spaces of the module\<close>

text \<open>
  The repository is one Python module, \<^verbatim>\<open>writing_a_wav_file.py\<close>, which defines one
  function:
  \<^verbatim>\<open>
  def writeWAVE(fname, data):
      file = wave.open(fname, 'wb')
      nChannels = 1
      sampleWidth = 2
      frameRate = 44100
      nFrames = 44100
      file.setparams((nChannels, sampleWidth, frameRate, nFrames,
                      'NONE', 'noncompressed'))
      file.writeframes(data)
      file.close()
  \<close>
  The module has no \<^verbatim>\<open>import\<close> statement. The name \<^verbatim>\<open>wave\<close> in the body is a global
  name, looked up when the body runs: first in the module's global name space, then in
  the builtins. The global name space is therefore a parameter of the model.
\<close>

type_synonym byte = "8 word"

text \<open>
  The \<^verbatim>\<open>data\<close> argument. \<open>PyBytes\<close> stands for \<^verbatim>\<open>bytes\<close>, \<^verbatim>\<open>bytearray\<close> and every
  object that exports a C-contiguous buffer, seen as its bytes. \<open>PyStr\<close> stands for an
  object on which \<^verbatim>\<open>memoryview(data).cast('B')\<close> raises \<^verbatim>\<open>TypeError\<close>: a \<^verbatim>\<open>str\<close>, which
  exports no buffer, and likewise a buffer that is not C-contiguous.
\<close>

datatype pyobj = PyBytes "byte list" | PyStr string

datatype pyerror =
    NameError string
  | AttributeError string
  | OSError string
  | TypeError
  | ValueError
  | WaveError string
  | StructError

text \<open>What a global name may be bound to: a function object, or the module \<^verbatim>\<open>wave\<close>.\<close>

datatype pyval = PyFunction string | WaveModule

type_synonym namespace = "string \<rightharpoonup> pyval"

text \<open>
  Running the module executes its only statement, the \<^verbatim>\<open>def\<close>, which binds
  \<^verbatim>\<open>writeWAVE\<close>. Nothing else is bound.
\<close>

definition module_globals :: namespace where
  "module_globals = [''writeWAVE'' \<mapsto> PyFunction ''writeWAVE'']"

text \<open>The builtins the model names. The builtins module has no name \<^verbatim>\<open>wave\<close>.\<close>

definition builtins :: namespace where
  "builtins = [''open'' \<mapsto> PyFunction ''open'', ''len'' \<mapsto> PyFunction ''len'',
     ''isinstance'' \<mapsto> PyFunction ''isinstance'', ''memoryview'' \<mapsto> PyFunction ''memoryview'']"

definition load_global :: "namespace \<Rightarrow> string \<Rightarrow> pyerror + pyval" where
  "load_global g name =
     (case g name of
        Some v \<Rightarrow> Inr v
      | None \<Rightarrow> (case builtins name of Some v \<Rightarrow> Inr v | None \<Rightarrow> Inl (NameError name)))"

text \<open>The attribute \<^verbatim>\<open>open\<close> of the value of \<^verbatim>\<open>wave\<close>: a function object has none.\<close>

definition load_attr_open :: "pyval \<Rightarrow> pyerror + unit" where
  "load_attr_open v =
     (case v of WaveModule \<Rightarrow> Inr () | PyFunction f \<Rightarrow> Inl (AttributeError ''open''))"

definition err_bind :: "pyerror + 'a \<Rightarrow> ('a \<Rightarrow> pyerror + 'b) \<Rightarrow> pyerror + 'b" where
  "err_bind r k = (case r of Inl e \<Rightarrow> Inl e | Inr a \<Rightarrow> k a)"

text \<open>The expression \<^verbatim>\<open>wave.open\<close>: the global name, then its attribute.\<close>

definition wave_dot_open :: "namespace \<Rightarrow> pyerror + unit" where
  "wave_dot_open g = err_bind (load_global g ''wave'') load_attr_open"

section \<open>The world: files and open file objects\<close>

text \<open>
  A file object is a reference (a number) into the table of open files, which holds the
  path and the position of each. \<open>unwritable\<close> is the set of paths that
  \<^verbatim>\<open>open(path, 'wb')\<close> refuses (no such directory, permission denied, a directory).
  Writes go to the file at once: the buffer of the file object is not modelled. In
  this world an operation on an open file does not fail; what the device may do after
  the open (no space left, an I/O error at a write, a flush or a close) is outside it.
  For the propagation of exceptions the library is a parameter, and every behaviour of
  its calls is covered, these failures among them.
\<close>

record openfile =
  of_path :: string
  of_pos :: nat

record world =
  files :: "string \<rightharpoonup> byte list"
  unwritable :: "string set"
  handles :: "(nat \<times> openfile) list"

text \<open>A computation either raises or returns, and leaves a world in both cases.\<close>

type_synonym 'a io = "world \<Rightarrow> (pyerror + 'a) \<times> world"

definition io_return :: "'a \<Rightarrow> 'a io" where
  "io_return a w = (Inr a, w)"

definition io_raise :: "pyerror \<Rightarrow> 'a io" where
  "io_raise e w = (Inl e, w)"

definition io_lift :: "pyerror + 'a \<Rightarrow> 'a io" where
  "io_lift r w = (r, w)"

text \<open>Sequencing with no handler: an exception of the first part ends the whole.\<close>

definition io_bind :: "'a io \<Rightarrow> ('a \<Rightarrow> 'b io) \<Rightarrow> 'b io" where
  "io_bind m k w = (case m w of (Inl e, w') \<Rightarrow> (Inl e, w') | (Inr a, w') \<Rightarrow> k a w')"

definition fresh_fd :: "(nat \<times> openfile) list \<Rightarrow> nat" where
  "fresh_fd hs = Suc (foldr max (map fst hs) 0)"

definition remove_fd :: "nat \<Rightarrow> (nat \<times> openfile) list \<Rightarrow> (nat \<times> openfile) list" where
  "remove_fd fd hs = filter (\<lambda>h. fst h \<noteq> fd) hs"

fun update_fd :: "nat \<Rightarrow> openfile \<Rightarrow> (nat \<times> openfile) list \<Rightarrow> (nat \<times> openfile) list" where
  "update_fd fd f [] = []"
| "update_fd fd f (h # hs) = (if fst h = fd then (fd, f) # hs else h # update_fd fd f hs)"

text \<open>
  Writing \<open>bs\<close> at position \<open>pos\<close>: the bytes replace what was there and extend the
  file; a gap past the end is filled with zeros.
\<close>

definition write_at :: "byte list \<Rightarrow> nat \<Rightarrow> byte list \<Rightarrow> byte list" where
  "write_at old pos bs =
     take pos old @ replicate (pos - length old) 0 @ bs @ drop (pos + length bs) old"

definition contents :: "world \<Rightarrow> string \<Rightarrow> byte list" where
  "contents w p = (case files w p of Some c \<Rightarrow> c | None \<Rightarrow> [])"

text \<open>\<^verbatim>\<open>builtins.open(path, 'wb')\<close>: creates the file or truncates it to length zero.\<close>

definition builtins_open_wb :: "string \<Rightarrow> nat io" where
  "builtins_open_wb path w =
     (if path \<in> unwritable w then (Inl (OSError path), w)
      else let fd = fresh_fd (handles w) in
        (Inr fd, w\<lparr>files := (files w)(path \<mapsto> []),
                   handles := (fd, \<lparr>of_path = path, of_pos = 0\<rparr>) # handles w\<rparr>))"

definition file_write :: "nat \<Rightarrow> byte list \<Rightarrow> unit io" where
  "file_write fd bs w =
     (case map_of (handles w) fd of
        None \<Rightarrow> (Inl ValueError, w)
      | Some f \<Rightarrow>
          (Inr (), w\<lparr>files := (files w)(of_path f \<mapsto>
                         write_at (contents w (of_path f)) (of_pos f) bs),
                     handles := update_fd fd (f\<lparr>of_pos := of_pos f + length bs\<rparr>) (handles w)\<rparr>))"

definition file_tell :: "nat \<Rightarrow> nat io" where
  "file_tell fd w =
     (case map_of (handles w) fd of
        None \<Rightarrow> (Inl ValueError, w)
      | Some f \<Rightarrow> (Inr (of_pos f), w))"

definition file_seek :: "nat \<Rightarrow> nat \<Rightarrow> unit io" where
  "file_seek fd pos w =
     (case map_of (handles w) fd of
        None \<Rightarrow> (Inl ValueError, w)
      | Some f \<Rightarrow> (Inr (), w\<lparr>handles := update_fd fd (f\<lparr>of_pos := pos\<rparr>) (handles w)\<rparr>))"

definition file_flush :: "nat \<Rightarrow> unit io" where
  "file_flush fd w =
     (case map_of (handles w) fd of
        None \<Rightarrow> (Inl ValueError, w)
      | Some f \<Rightarrow> (Inr (), w))"

text \<open>Closing a file object that is closed already does nothing.\<close>

definition file_close :: "nat \<Rightarrow> unit io" where
  "file_close fd w = (Inr (), w\<lparr>handles := remove_fd fd (handles w)\<rparr>)"

section \<open>The standard module \<^verbatim>\<open>wave\<close>: the class \<^verbatim>\<open>Wave_write\<close>\<close>

text \<open>
  \<^verbatim>\<open>writeWAVE\<close> calls \<^verbatim>\<open>wave.open\<close>, \<^verbatim>\<open>setparams\<close>, \<^verbatim>\<open>writeframes\<close> and
  \<^verbatim>\<open>close\<close>. They belong to the Python standard library, not to the repository; the
  definitions below follow \<^verbatim>\<open>Lib/wave.py\<close> of CPython 3.12 method by method, on a
  little-endian host (\<^verbatim>\<open>sys.byteorder == 'little'\<close>, so no byte swap of the frames).
\<close>

definition ascii :: "string \<Rightarrow> byte list" where
  "ascii s = map (\<lambda>c. of_nat (of_char c)) s"

definition le16 :: "nat \<Rightarrow> byte list" where
  "le16 n = [of_nat (n mod 256), of_nat (n div 256 mod 256)]"

definition le32 :: "nat \<Rightarrow> byte list" where
  "le32 n = [of_nat (n mod 256), of_nat (n div 256 mod 256),
             of_nat (n div 65536 mod 256), of_nat (n div 16777216 mod 256)]"

definition fits_H :: "int \<Rightarrow> bool" where
  "fits_H n = (0 \<le> n \<and> n < 65536)"

definition fits_L :: "int \<Rightarrow> bool" where
  "fits_L n = (0 \<le> n \<and> n < 4294967296)"

text \<open>\<^verbatim>\<open>struct.pack('<L', n)\<close>: \<^verbatim>\<open>struct.error\<close> when \<open>n\<close> is not an unsigned 32-bit value.\<close>

definition pack_L :: "int \<Rightarrow> pyerror + byte list" where
  "pack_L n = (if fits_L n then Inr (le32 (nat n)) else Inl StructError)"

text \<open>
  \<^verbatim>\<open>struct.pack('<L4s4sLHHLLHH4s', 36 + datalength, b'WAVE', b'fmt ', 16,
  WAVE_FORMAT_PCM, nchannels, framerate, nchannels * framerate * sampwidth,
  nchannels * sampwidth, sampwidth * 8, b'data')\<close> with \<^verbatim>\<open>WAVE_FORMAT_PCM = 0x0001\<close>.
\<close>

definition pack_fmt :: "int \<Rightarrow> int \<Rightarrow> int \<Rightarrow> int \<Rightarrow> pyerror + byte list" where
  "pack_fmt dlen nch rate width =
     (if fits_L (36 + dlen) \<and> fits_H nch \<and> fits_L rate \<and> fits_L (nch * rate * width)
         \<and> fits_H (nch * width) \<and> fits_H (width * 8)
      then Inr (le32 (nat (36 + dlen)) @ ascii ''WAVE'' @ ascii ''fmt '' @ le32 16 @ le16 1
                @ le16 (nat nch) @ le32 (nat rate) @ le32 (nat (nch * rate * width))
                @ le16 (nat (nch * width)) @ le16 (nat (width * 8)) @ ascii ''data'')
      else Inl StructError)"

record wave_write =
  wfile :: "nat option"
  i_opened_the_file :: "nat option"
  nchannels :: int
  sampwidth :: int
  framerate :: int
  nframes :: int
  comptype :: "string option"
  compname :: "string option"
  nframeswritten :: int
  datawritten :: int
  datalength :: int
  headerwritten :: bool
  form_length_pos :: "nat option"
  data_length_pos :: "nat option"

definition initfp :: "nat \<Rightarrow> wave_write" where
  "initfp fd = \<lparr>wfile = Some fd, i_opened_the_file = Some fd, nchannels = 0, sampwidth = 0,
     framerate = 0, nframes = 0, comptype = None, compname = None, nframeswritten = 0,
     datawritten = 0, datalength = 0, headerwritten = False, form_length_pos = None,
     data_length_pos = None\<rparr>"

text \<open>
  \<^verbatim>\<open>wave.open(f, 'wb')\<close> with a \<^verbatim>\<open>str\<close> \<open>f\<close>: the mode is in \<^verbatim>\<open>('w', 'wb')\<close>, so the
  call is \<^verbatim>\<open>Wave_write(f)\<close>, which opens the file itself and cannot fail after that.
\<close>

definition wave_open_wb :: "string \<Rightarrow> wave_write io" where
  "wave_open_wb f = io_bind (builtins_open_wb f) (\<lambda>fd. io_return (initfp fd))"

definition changing_late :: pyerror where
  "changing_late = WaveError ''cannot change parameters after starting to write''"

definition setnchannels :: "int \<Rightarrow> wave_write \<Rightarrow> pyerror + wave_write" where
  "setnchannels n s =
     (if datawritten s \<noteq> 0 then Inl changing_late
      else if n < 1 then Inl (WaveError ''bad # of channels'')
      else Inr (s\<lparr>nchannels := n\<rparr>))"

definition setsampwidth :: "int \<Rightarrow> wave_write \<Rightarrow> pyerror + wave_write" where
  "setsampwidth n s =
     (if datawritten s \<noteq> 0 then Inl changing_late
      else if n < 1 \<or> n > 4 then Inl (WaveError ''bad sample width'')
      else Inr (s\<lparr>sampwidth := n\<rparr>))"

definition setframerate :: "int \<Rightarrow> wave_write \<Rightarrow> pyerror + wave_write" where
  "setframerate n s =
     (if datawritten s \<noteq> 0 then Inl changing_late
      else if n \<le> 0 then Inl (WaveError ''bad frame rate'')
      else Inr (s\<lparr>framerate := n\<rparr>))"

definition setnframes :: "int \<Rightarrow> wave_write \<Rightarrow> pyerror + wave_write" where
  "setnframes n s =
     (if datawritten s \<noteq> 0 then Inl changing_late
      else Inr (s\<lparr>nframes := n\<rparr>))"

definition setcomptype :: "string \<Rightarrow> string \<Rightarrow> wave_write \<Rightarrow> pyerror + wave_write" where
  "setcomptype ct cn s =
     (if datawritten s \<noteq> 0 then Inl changing_late
      else if ct \<noteq> ''NONE'' then Inl (WaveError ''unsupported compression type'')
      else Inr (s\<lparr>comptype := Some ct, compname := Some cn\<rparr>))"

type_synonym wave_params = "int \<times> int \<times> int \<times> int \<times> string \<times> string"

definition setparams :: "wave_params \<Rightarrow> wave_write \<Rightarrow> pyerror + wave_write" where
  "setparams params s =
     (case params of (nch, width, rate, nfr, ct, cn) \<Rightarrow>
        if datawritten s \<noteq> 0 then Inl changing_late
        else err_bind (setnchannels nch s) (\<lambda>s.
             err_bind (setsampwidth width s) (\<lambda>s.
             err_bind (setframerate rate s) (\<lambda>s.
             err_bind (setnframes nfr s) (\<lambda>s.
             setcomptype ct cn s)))))"

text \<open>
  The method \<open>name\<close> of \<^verbatim>\<open>self._file\<close>. When \<^verbatim>\<open>self._file\<close> is \<^verbatim>\<open>None\<close> the lookup of
  the method raises \<^verbatim>\<open>AttributeError\<close> for that name.
\<close>

definition with_file :: "wave_write \<Rightarrow> string \<Rightarrow> (nat \<Rightarrow> 'a io) \<Rightarrow> 'a io" where
  "with_file s name k =
     (case wfile s of None \<Rightarrow> io_raise (AttributeError name) | Some fd \<Rightarrow> k fd)"

definition write_header :: "int \<Rightarrow> wave_write \<Rightarrow> wave_write io" where
  "write_header initlength s =
     io_bind (with_file s ''write'' (\<lambda>fd. file_write fd (ascii ''RIFF''))) (\<lambda>_.
     let s = (if nframes s = 0
              then s\<lparr>nframes := initlength div (nchannels s * sampwidth s)\<rparr> else s);
         s = s\<lparr>datalength := nframes s * nchannels s * sampwidth s\<rparr>
     in
     io_bind (with_file s ''tell'' file_tell) (\<lambda>p.
     let s = s\<lparr>form_length_pos := Some p\<rparr> in
     io_bind (io_lift (pack_fmt (datalength s) (nchannels s) (framerate s) (sampwidth s))) (\<lambda>h.
     io_bind (with_file s ''write'' (\<lambda>fd. file_write fd h)) (\<lambda>_.
     io_bind (with_file s ''tell'' file_tell) (\<lambda>q.
     let s = s\<lparr>data_length_pos := Some q\<rparr> in
     io_bind (io_lift (pack_L (datalength s))) (\<lambda>d.
     io_bind (with_file s ''write'' (\<lambda>fd. file_write fd d)) (\<lambda>_.
     io_return (s\<lparr>headerwritten := True\<rparr>))))))))"

definition ensure_header_written :: "int \<Rightarrow> wave_write \<Rightarrow> wave_write io" where
  "ensure_header_written datasize s =
     (if \<not> headerwritten s then
        if nchannels s = 0 then io_raise (WaveError ''# channels not specified'')
        else if sampwidth s = 0 then io_raise (WaveError ''sample width not specified'')
        else if framerate s = 0 then io_raise (WaveError ''sampling rate not specified'')
        else write_header datasize s
      else io_return s)"

definition seek_to :: "nat option \<Rightarrow> nat \<Rightarrow> unit io" where
  "seek_to pos fd = (case pos of None \<Rightarrow> io_raise TypeError | Some p \<Rightarrow> file_seek fd p)"

definition patchheader :: "wave_write \<Rightarrow> wave_write io" where
  "patchheader s =
     (if datawritten s = datalength s then io_return s
      else
        io_bind (with_file s ''tell'' file_tell) (\<lambda>curpos.
        io_bind (with_file s ''seek'' (seek_to (form_length_pos s))) (\<lambda>_.
        io_bind (io_lift (pack_L (36 + datawritten s))) (\<lambda>a.
        io_bind (with_file s ''write'' (\<lambda>fd. file_write fd a)) (\<lambda>_.
        io_bind (with_file s ''seek'' (seek_to (data_length_pos s))) (\<lambda>_.
        io_bind (io_lift (pack_L (datawritten s))) (\<lambda>b.
        io_bind (with_file s ''write'' (\<lambda>fd. file_write fd b)) (\<lambda>_.
        io_bind (with_file s ''seek'' (\<lambda>fd. file_seek fd curpos)) (\<lambda>_.
        io_return (s\<lparr>datalength := datawritten s\<rparr>))))))))))"

text \<open>
  \<^verbatim>\<open>writeframesraw\<close>: an object that is neither \<^verbatim>\<open>bytes\<close> nor \<^verbatim>\<open>bytearray\<close> goes
  through \<^verbatim>\<open>memoryview(data).cast('B')\<close>, which raises \<^verbatim>\<open>TypeError\<close> on a \<^verbatim>\<open>str\<close>.
  \<^verbatim>\<open>self._convert\<close> is \<^verbatim>\<open>None\<close>.
\<close>

definition writeframesraw :: "pyobj \<Rightarrow> wave_write \<Rightarrow> wave_write io" where
  "writeframesraw data s =
     (case data of
        PyStr t \<Rightarrow> io_raise TypeError
      | PyBytes bs \<Rightarrow>
          io_bind (ensure_header_written (int (length bs)) s) (\<lambda>s.
          let n = int (length bs) div (sampwidth s * nchannels s) in
          io_bind (with_file s ''write'' (\<lambda>fd. file_write fd bs)) (\<lambda>_.
          io_return (s\<lparr>datawritten := datawritten s + int (length bs),
                       nframeswritten := nframeswritten s + n\<rparr>))))"

definition writeframes :: "pyobj \<Rightarrow> wave_write \<Rightarrow> wave_write io" where
  "writeframes data s =
     io_bind (writeframesraw data s) (\<lambda>s.
     if datalength s \<noteq> datawritten s then patchheader s else io_return s)"

text \<open>The \<^verbatim>\<open>try\<close> part and the \<^verbatim>\<open>finally\<close> part of \<^verbatim>\<open>Wave_write.close\<close>.\<close>

definition close_try :: "wave_write \<Rightarrow> wave_write io" where
  "close_try s =
     (case wfile s of
        None \<Rightarrow> io_return s
      | Some fd \<Rightarrow>
          io_bind (ensure_header_written 0 s) (\<lambda>s.
          io_bind (if datalength s \<noteq> datawritten s then patchheader s else io_return s) (\<lambda>s.
          io_bind (file_flush fd) (\<lambda>_. io_return s))))"

definition close_finally :: "wave_write \<Rightarrow> wave_write io" where
  "close_finally s =
     (case i_opened_the_file s of
        None \<Rightarrow> io_return (s\<lparr>wfile := None\<rparr>)
      | Some fd \<Rightarrow>
          io_bind (file_close fd) (\<lambda>_.
          io_return (s\<lparr>wfile := None, i_opened_the_file := None\<rparr>)))"

definition wave_close :: "wave_write \<Rightarrow> wave_write io" where
  "wave_close s w =
     (case close_try s w of
        (Inr s', w') \<Rightarrow> close_finally s' w'
      | (Inl e, w') \<Rightarrow>
          (case close_finally s w' of
             (Inr s', w'') \<Rightarrow> (Inl e, w'')
           | (Inl e', w'') \<Rightarrow> (Inl e', w'')))"

section \<open>The function of the repository\<close>

text \<open>
  The body of \<^verbatim>\<open>writeWAVE\<close>, statement by statement, in the global name space \<open>g\<close>.
  \<open>writeWAVE_body\<close> hands back the local variable \<^verbatim>\<open>file\<close> as it is when the body
  ends; \<open>writeWAVE\<close> is the call itself, which returns \<^verbatim>\<open>None\<close>.
\<close>

definition writeWAVE_body :: "namespace \<Rightarrow> string \<Rightarrow> pyobj \<Rightarrow> wave_write io" where
  "writeWAVE_body g fname data =
     io_bind (io_lift (wave_dot_open g)) (\<lambda>_.
     io_bind (wave_open_wb fname) (\<lambda>file.
     let nChannels = 1;
         sampleWidth = 2;
         frameRate = 44100;
         nFrames = 44100
     in
     io_bind (io_lift (setparams (nChannels, sampleWidth, frameRate, nFrames,
                                  ''NONE'', ''noncompressed'') file)) (\<lambda>file.
     io_bind (writeframes data file) (\<lambda>file.
     wave_close file))))"

definition writeWAVE :: "namespace \<Rightarrow> string \<Rightarrow> pyobj \<Rightarrow> unit io" where
  "writeWAVE g fname data w =
     (case writeWAVE_body g fname data w of
        (Inl e, w') \<Rightarrow> (Inl e, w')
      | (Inr file, w') \<Rightarrow> (Inr (), w'))"


section \<open>The body with the library as a parameter\<close>

text \<open>
  Python looks the four calls up when the body runs: \<^verbatim>\<open>open\<close> on whatever \<^verbatim>\<open>wave\<close> is
  bound to, the three methods on whatever that \<^verbatim>\<open>open\<close> returned. What they do, and
  whether they raise, is decided by that library and by the device under it, not by the
  repository. \<open>'f wavelib\<close> is such a library, over any type \<open>'f\<close> of writer objects:
  each call may return the writer as it has become, or raise, and leaves a world.
\<close>

record 'f wavelib =
  lib_open :: "string \<Rightarrow> 'f io"
  lib_setparams :: "wave_params \<Rightarrow> 'f \<Rightarrow> 'f io"
  lib_writeframes :: "pyobj \<Rightarrow> 'f \<Rightarrow> 'f io"
  lib_close :: "'f \<Rightarrow> 'f io"

text \<open>
  The body of \<^verbatim>\<open>writeWAVE\<close> once more, statement by statement. Its first argument is
  what the expression \<^verbatim>\<open>wave.open\<close> evaluates to: an exception, or a library.
\<close>

definition writeWAVE_on :: "pyerror + 'f wavelib \<Rightarrow> string \<Rightarrow> pyobj \<Rightarrow> 'f io" where
  "writeWAVE_on wave fname data =
     io_bind (io_lift wave) (\<lambda>wave.
     io_bind (lib_open wave fname) (\<lambda>file.
     let nChannels = 1;
         sampleWidth = 2;
         frameRate = 44100;
         nFrames = 44100
     in
     io_bind (lib_setparams wave (nChannels, sampleWidth, frameRate, nFrames,
                                  ''NONE'', ''noncompressed'') file) (\<lambda>file.
     io_bind (lib_writeframes wave data file) (\<lambda>file.
     lib_close wave file))))"

text \<open>The standard module as such a library, and what a name space resolves to.\<close>

definition std_wave :: "wave_write wavelib" where
  "std_wave = \<lparr>lib_open = wave_open_wb,
     lib_setparams = (\<lambda>params s. io_lift (setparams params s)),
     lib_writeframes = writeframes,
     lib_close = wave_close\<rparr>"

definition resolve :: "namespace \<Rightarrow> pyerror + wave_write wavelib" where
  "resolve g = err_bind (wave_dot_open g) (\<lambda>_. Inr std_wave)"

text \<open>
  The standard module on a device that has no space left when the file object is
  flushed: \<^verbatim>\<open>self._file.flush()\<close> in \<^verbatim>\<open>Wave_write.close\<close> raises \<^verbatim>\<open>OSError\<close>. The
  \<^verbatim>\<open>finally\<close> part of \<^verbatim>\<open>close\<close> then closes the file, and the exception goes on.
  \<open>close_try_with\<close> and \<open>wave_close_with\<close> are \<open>close_try\<close> and \<open>wave_close\<close> with the
  flush as a parameter.
\<close>

definition flush_no_space :: "nat \<Rightarrow> unit io" where
  "flush_no_space fd w =
     (case map_of (handles w) fd of
        None \<Rightarrow> (Inl ValueError, w)
      | Some f \<Rightarrow> (Inl (OSError (of_path f)), w))"

definition close_try_with :: "(nat \<Rightarrow> unit io) \<Rightarrow> wave_write \<Rightarrow> wave_write io" where
  "close_try_with flush s =
     (case wfile s of
        None \<Rightarrow> io_return s
      | Some fd \<Rightarrow>
          io_bind (ensure_header_written 0 s) (\<lambda>s.
          io_bind (if datalength s \<noteq> datawritten s then patchheader s else io_return s) (\<lambda>s.
          io_bind (flush fd) (\<lambda>_. io_return s))))"

definition wave_close_with :: "(nat \<Rightarrow> unit io) \<Rightarrow> wave_write \<Rightarrow> wave_write io" where
  "wave_close_with flush s w =
     (case close_try_with flush s w of
        (Inr s', w') \<Rightarrow> close_finally s' w'
      | (Inl e, w') \<Rightarrow>
          (case close_finally s w' of
             (Inr s', w'') \<Rightarrow> (Inl e, w'')
           | (Inl e', w'') \<Rightarrow> (Inl e', w'')))"

definition wave_no_space :: "wave_write wavelib" where
  "wave_no_space = std_wave\<lparr>lib_close := wave_close_with flush_no_space\<rparr>"

text \<open>
  A module with the interface of \<^verbatim>\<open>wave\<close> whose \<^verbatim>\<open>setparams\<close> rejects the compression
  type \<^verbatim>\<open>'NONE'\<close> given as a \<^verbatim>\<open>str\<close>, as the one of the standard module \<^verbatim>\<open>aifc\<close> does
  (it accepts \<^verbatim>\<open>bytes\<close> only) after \<^verbatim>\<open>import aifc as wave\<close>. \<open>WaveError\<close> stands for
  the \<^verbatim>\<open>Error\<close> class of the module.
\<close>

definition wave_bytes_comptype :: "wave_write wavelib" where
  "wave_bytes_comptype = std_wave\<lparr>lib_setparams :=
     (\<lambda>params s. io_raise (WaveError ''unsupported compression type''))\<rparr>"

section \<open>Reading a written file back\<close>

text \<open>
  The fields of the 44-byte header that \<^verbatim>\<open>Wave_write\<close> emits, as a reader finds them:
  the format tag at offset 20, the number of channels at 22, the frame rate at 24, the
  bits per sample at 34, the size of the data chunk at 40 and the frames from 44 on.
  Numbers are little-endian.
\<close>

definition le_val :: "byte list \<Rightarrow> nat" where
  "le_val bs = foldr (\<lambda>b n. unat b + 256 * n) bs 0"

definition field :: "byte list \<Rightarrow> nat \<Rightarrow> nat \<Rightarrow> byte list" where
  "field c off n = take n (drop off c)"

definition header_format :: "byte list \<Rightarrow> nat" where
  "header_format c = le_val (field c 20 2)"

definition header_nchannels :: "byte list \<Rightarrow> nat" where
  "header_nchannels c = le_val (field c 22 2)"

definition header_framerate :: "byte list \<Rightarrow> nat" where
  "header_framerate c = le_val (field c 24 4)"

definition header_bits :: "byte list \<Rightarrow> nat" where
  "header_bits c = le_val (field c 34 2)"

definition header_data_size :: "byte list \<Rightarrow> nat" where
  "header_data_size c = le_val (field c 40 4)"

definition payload :: "byte list \<Rightarrow> byte list" where
  "payload c = drop 44 c"

definition open_fds :: "world \<Rightarrow> nat list" where
  "open_fds w = map fst (handles w)"

section \<open>The states a run of the body goes through\<close>

text \<open>
  Names for the intermediate states, used to state what each call of the library does
  in the state the body reaches it in.
\<close>

definition fmt_chunk :: "byte list" where
  "fmt_chunk = ascii ''WAVE'' @ ascii ''fmt '' @ le32 16 @ le16 1 @ le16 1 @ le32 44100
     @ le32 88200 @ le16 2 @ le16 16 @ ascii ''data''"

definition wav_header :: "nat \<Rightarrow> byte list" where
  "wav_header n = ascii ''RIFF'' @ le32 (36 + n) @ fmt_chunk @ le32 n"

definition out_bytes :: "pyobj \<Rightarrow> byte list" where
  "out_bytes data =
     (case data of
        PyStr t \<Rightarrow> []
      | PyBytes bs \<Rightarrow>
          (if 36 + length bs < 4294967296 then wav_header (length bs) @ bs
           else wav_header 88200 @ bs))"

definition opened :: "world \<Rightarrow> string \<Rightarrow> nat \<Rightarrow> byte list \<Rightarrow> nat \<Rightarrow> world" where
  "opened w fname fd c p =
     w\<lparr>files := (files w)(fname \<mapsto> c),
       handles := (fd, \<lparr>of_path = fname, of_pos = p\<rparr>) # handles w\<rparr>"

definition params_set :: "nat \<Rightarrow> wave_write" where
  "params_set fd = (initfp fd)\<lparr>nchannels := 1, sampwidth := 2, framerate := 44100,
     nframes := 44100, comptype := Some ''NONE'', compname := Some ''noncompressed''\<rparr>"

definition header_set :: "nat \<Rightarrow> wave_write" where
  "header_set fd = (params_set fd)\<lparr>datalength := 88200, form_length_pos := Some 4,
     data_length_pos := Some 40, headerwritten := True\<rparr>"

definition frames_written :: "nat \<Rightarrow> byte list \<Rightarrow> wave_write" where
  "frames_written fd bs = (header_set fd)\<lparr>datawritten := int (length bs),
     nframeswritten := int (length bs) div 2\<rparr>"

definition closed_writer :: "nat \<Rightarrow> byte list \<Rightarrow> wave_write" where
  "closed_writer fd bs = (frames_written fd bs)\<lparr>datalength := int (length bs),
     wfile := None, i_opened_the_file := None\<rparr>"

section \<open>Name spaces and worlds of the examples\<close>

text \<open>
  \<open>g_wave\<close> is the module's name space once \<^verbatim>\<open>wave\<close> is bound in it to the standard
  module, as after \<^verbatim>\<open>import wave\<close> in the module, or after the importing program has
  assigned the attribute \<^verbatim>\<open>wave\<close> of the module.
\<close>

definition g_wave :: namespace where
  "g_wave = module_globals(''wave'' \<mapsto> WaveModule)"

definition w_empty :: world where
  "w_empty = \<lparr>files = Map.empty, unwritable = {''/no/such/dir/out.wav''}, handles = []\<rparr>"

definition w_used :: world where
  "w_used = \<lparr>files = [''out.wav'' \<mapsto> [7, 7, 7]], unwritable = {''/no/such/dir/out.wav''},
     handles = [(3, \<lparr>of_path = ''other.bin'', of_pos = 0\<rparr>)]\<rparr>"

section \<open>File objects\<close>

lemma fresh_fd_notin: "fresh_fd hs \<notin> fst ` set hs"
proof -
  have "\<And>k. k \<in> set ks \<Longrightarrow> k \<le> foldr max ks 0" for ks :: "nat list"
    by (induction ks) (auto simp: le_max_iff_disj)
  then have "\<And>k. k \<in> fst ` set hs \<Longrightarrow> k \<le> foldr max (map fst hs) 0"
    by (metis image_set)
  then show ?thesis
    unfolding fresh_fd_def by (meson Suc_n_not_le_n)
qed

lemma remove_fd_fresh: "fd \<notin> fst ` set hs \<Longrightarrow> remove_fd fd hs = hs"
  by (induction hs) (auto simp: remove_fd_def)

lemma write_at_end: "length old = p \<Longrightarrow> write_at old p bs = old @ bs"
  by (simp add: write_at_def)

lemma write_at_patch:
  "length a = p \<Longrightarrow> length x = length y \<Longrightarrow> write_at (a @ x @ r) p y = a @ y @ r"
  by (simp add: write_at_def)

section \<open>The header\<close>

lemma length_le32 [simp]: "length (le32 n) = 4"
  by (simp add: le32_def)

lemma length_le16 [simp]: "length (le16 n) = 2"
  by (simp add: le16_def)

lemma length_ascii [simp]: "length (ascii s) = length s"
  by (simp add: ascii_def)

lemma length_fmt_chunk [simp]: "length fmt_chunk = 32"
  by (simp add: fmt_chunk_def)

lemma length_wav_header [simp]: "length (wav_header n) = 44"
  by (simp add: wav_header_def)

lemma patch_form_length:
  "write_at (wav_header m @ bs) 4 (le32 (36 + n))
     = ascii ''RIFF'' @ le32 (36 + n) @ fmt_chunk @ le32 m @ bs"
  using write_at_patch [of "ascii ''RIFF''" 4 "le32 (36 + m)" "le32 (36 + n)"
      "fmt_chunk @ le32 m @ bs"]
  by (simp add: wav_header_def)

lemma patch_data_length:
  "write_at (ascii ''RIFF'' @ le32 k @ fmt_chunk @ le32 m @ bs) 40 (le32 n)
     = ascii ''RIFF'' @ le32 k @ fmt_chunk @ le32 n @ bs"
  using write_at_patch [of "ascii ''RIFF'' @ le32 k @ fmt_chunk" 40 "le32 m" "le32 n" bs]
  by simp

lemma fmt_chunk_bytes:
  "fmt_chunk = [87, 65, 86, 69, 102, 109, 116, 32, 16, 0, 0, 0, 1, 0, 1, 0,
     68, 172, 0, 0, 136, 88, 1, 0, 2, 0, 16, 0, 100, 97, 116, 97]"
  by (simp add: fmt_chunk_def ascii_def le32_def le16_def)

lemma unat_byte: "unat (of_nat (k mod 256) :: byte) = k mod 256"
  by (simp add: unat_of_nat)

lemma le_val_le32:
  assumes "n < 4294967296"
  shows "le_val (le32 n) = n"
proof -
  define q1 where "q1 = n div 256"
  define q2 where "q2 = q1 div 256"
  define q3 where "q3 = q2 div 256"
  have d2: "n div 65536 = q2"
    unfolding q2_def q1_def by (simp add: div_mult2_eq [symmetric])
  have d3: "n div 16777216 = q3"
    unfolding q3_def q2_def q1_def by (simp add: div_mult2_eq [symmetric])
  have small: "q3 < 256"
    using assms unfolding d3 [symmetric] by (simp add: less_mult_imp_div_less)
  define a where "a = n mod 256"
  define b where "b = q1 mod 256"
  define c where "c = q2 mod 256"
  have e1: "n = 256 * q1 + a"
    unfolding q1_def a_def by simp
  have e2: "q1 = 256 * q2 + b"
    unfolding q2_def b_def by simp
  have e3: "q2 = 256 * q3 + c"
    unfolding q3_def c_def by simp
  have "le_val (le32 n)
      = n mod 256 + 256 * (q1 mod 256 + 256 * (q2 mod 256 + 256 * (q3 mod 256)))"
    unfolding le_val_def le32_def d2 d3 q1_def [symmetric]
    by (simp only: foldr.simps o_apply id_apply unat_byte mult_0_right add_0_right)
  also have "\<dots> = a + 256 * (b + 256 * (c + 256 * q3))"
    using small by (simp add: a_def b_def c_def)
  also have "\<dots> = a + 256 * (b + 256 * q2)"
    by (simp only: e3 [symmetric] add.commute [of c])
  also have "\<dots> = a + 256 * q1"
    by (simp only: e2 [symmetric] add.commute [of b])
  also have "\<dots> = n"
    by (simp only: e1 [symmetric] add.commute [of a])
  finally show ?thesis .
qed

section \<open>What each call of the library does in a run of the body\<close>

lemmas io_defs = io_bind_def io_lift_def io_return_def io_raise_def with_file_def

lemma wave_dot_open_bound: "g ''wave'' = Some WaveModule \<Longrightarrow> wave_dot_open g = Inr ()"
  by (simp add: wave_dot_open_def err_bind_def load_global_def load_attr_open_def)

lemma wave_dot_open_unbound:
  "g ''wave'' = None \<Longrightarrow> wave_dot_open g = Inl (NameError ''wave'')"
  by (simp add: wave_dot_open_def err_bind_def load_global_def builtins_def)

lemma wave_dot_open_function:
  "g ''wave'' = Some (PyFunction f) \<Longrightarrow> wave_dot_open g = Inl (AttributeError ''open'')"
  by (simp add: wave_dot_open_def err_bind_def load_global_def load_attr_open_def)

lemma wave_open_wb_result:
  "wave_open_wb fname w =
     (if fname \<in> unwritable w then (Inl (OSError fname), w)
      else (Inr (initfp (fresh_fd (handles w))), opened w fname (fresh_fd (handles w)) [] 0))"
  by (simp add: wave_open_wb_def builtins_open_wb_def io_defs Let_def opened_def)

lemma setparams_fixed:
  "setparams (1, 2, 44100, 44100, ''NONE'', ''noncompressed'') (initfp fd) = Inr (params_set fd)"
  by (simp add: setparams_def err_bind_def setnchannels_def setsampwidth_def setframerate_def
      setnframes_def setcomptype_def initfp_def params_set_def)

lemma write_header_result:
  "write_header n (params_set fd) (opened w fname fd [] 0)
     = (Inr (header_set fd), opened w fname fd (wav_header 88200) 44)"
  by (simp add: write_header_def params_set_def initfp_def io_defs file_write_def file_tell_def
      contents_def write_at_def pack_fmt_def pack_L_def fits_L_def fits_H_def wav_header_def
      fmt_chunk_def Let_def opened_def header_set_def)

lemma writeframesraw_result:
  "writeframesraw (PyBytes bs) (params_set fd) (opened w fname fd [] 0)
     = (Inr (frames_written fd bs), opened w fname fd (wav_header 88200 @ bs) (44 + length bs))"
proof -
  have hw: "\<not> headerwritten (params_set fd)" "nchannels (params_set fd) \<noteq> 0"
    "sampwidth (params_set fd) \<noteq> 0" "framerate (params_set fd) \<noteq> 0"
    by (simp_all add: params_set_def initfp_def)
  have w: "file_write fd bs (opened w fname fd (wav_header 88200) 44)
      = (Inr (), opened w fname fd (wav_header 88200 @ bs) (44 + length bs))"
    by (simp add: file_write_def opened_def contents_def write_at_end)
  show ?thesis
    unfolding writeframesraw_def ensure_header_written_def
    by (simp add: hw write_header_result io_bind_def io_return_def with_file_def w)
       (simp add: frames_written_def header_set_def params_set_def initfp_def w io_return_def)
qed

lemma patchheader_result:
  assumes "length bs \<noteq> 88200" "36 + length bs < 4294967296"
  shows "patchheader (frames_written fd bs)
           (opened w fname fd (wav_header 88200 @ bs) (44 + length bs))
     = (Inr ((frames_written fd bs)\<lparr>datalength := int (length bs)\<rparr>),
        opened w fname fd (wav_header (length bs) @ bs) (44 + length bs))"
proof -
  have p1: "pack_L (36 + int (length bs)) = Inr (le32 (36 + length bs))"
    using assms by (simp add: pack_L_def fits_L_def nat_add_distrib)
  have p2: "pack_L (int (length bs)) = Inr (le32 (length bs))"
    using assms by (simp add: pack_L_def fits_L_def)
  show ?thesis
    using assms
    by (simp add: patchheader_def frames_written_def header_set_def params_set_def initfp_def
        io_defs file_tell_def file_seek_def file_write_def seek_to_def opened_def contents_def
        p1 p2 patch_form_length patch_data_length)
      (simp add: wav_header_def)
qed

lemma patchheader_overflow:
  assumes "\<not> 36 + length bs < 4294967296"
  shows "patchheader (frames_written fd bs)
           (opened w fname fd (wav_header 88200 @ bs) (44 + length bs))
     = (Inl StructError, opened w fname fd (wav_header 88200 @ bs) 4)"
proof -
  have p1: "pack_L (36 + int (length bs)) = Inl StructError"
    using assms by (simp add: pack_L_def fits_L_def)
  show ?thesis
    using assms
    by (simp add: patchheader_def frames_written_def header_set_def params_set_def initfp_def
        io_defs file_tell_def file_seek_def file_write_def seek_to_def opened_def contents_def
        p1)
qed

lemma frames_written_lengths:
  "datalength (frames_written fd bs) = 88200"
  "datawritten (frames_written fd bs) = int (length bs)"
  by (simp_all add: frames_written_def header_set_def)

lemma writeframes_result:
  assumes "36 + length bs < 4294967296"
  shows "writeframes (PyBytes bs) (params_set fd) (opened w fname fd [] 0)
     = (Inr ((frames_written fd bs)\<lparr>datalength := int (length bs)\<rparr>),
        opened w fname fd (wav_header (length bs) @ bs) (44 + length bs))"
proof (cases "length bs = 88200")
  case True
  then show ?thesis
    by (simp add: writeframes_def writeframesraw_result io_bind_def io_return_def
        header_set_def frames_written_def)
next
  case False
  then show ?thesis
    using patchheader_result [OF False assms, of fd w fname]
    by (simp add: writeframes_def writeframesraw_result io_bind_def frames_written_lengths)
qed

lemma writeframes_overflow:
  assumes "\<not> 36 + length bs < 4294967296"
  shows "writeframes (PyBytes bs) (params_set fd) (opened w fname fd [] 0)
     = (Inl StructError, opened w fname fd (wav_header 88200 @ bs) 4)"
proof -
  from assms have "length bs \<noteq> 88200"
    by auto
  then show ?thesis
    using patchheader_overflow [OF assms, of fd w fname]
    by (simp add: writeframes_def writeframesraw_result io_bind_def frames_written_lengths)
qed

lemma writeframes_str: "writeframes (PyStr t) s w = (Inl TypeError, w)"
  by (simp add: writeframes_def writeframesraw_def io_bind_def io_raise_def)

lemma wave_close_result:
  assumes "fd \<notin> fst ` set (handles w)"
  shows "wave_close ((frames_written fd bs)\<lparr>datalength := int (length bs)\<rparr>)
           (opened w fname fd c p)
     = (Inr (closed_writer fd bs), w\<lparr>files := (files w)(fname \<mapsto> c)\<rparr>)"
  using remove_fd_fresh [OF assms]
  by (simp add: wave_close_def close_try_def close_finally_def ensure_header_written_def
      frames_written_def header_set_def params_set_def initfp_def io_defs file_flush_def
      file_close_def opened_def closed_writer_def remove_fd_def)

section \<open>The runs of the body\<close>

text \<open>
  Six cases cover every run: the name \<^verbatim>\<open>wave\<close> is unbound; it is bound to a function;
  the path cannot be opened; the data is no buffer; the data is too long for the 32-bit
  size fields; and the run that returns.
\<close>

lemma body_unbound:
  "g ''wave'' = None \<Longrightarrow> writeWAVE_body g fname data w = (Inl (NameError ''wave''), w)"
  by (simp add: writeWAVE_body_def io_bind_def io_lift_def wave_dot_open_unbound)

lemma body_function:
  "g ''wave'' = Some (PyFunction f) \<Longrightarrow>
   writeWAVE_body g fname data w = (Inl (AttributeError ''open''), w)"
  by (simp add: writeWAVE_body_def io_bind_def io_lift_def wave_dot_open_function)

lemma body_unwritable:
  "g ''wave'' = Some WaveModule \<Longrightarrow> fname \<in> unwritable w \<Longrightarrow>
   writeWAVE_body g fname data w = (Inl (OSError fname), w)"
  by (simp add: writeWAVE_body_def io_bind_def io_lift_def wave_dot_open_bound
      wave_open_wb_result)

lemma body_str:
  "g ''wave'' = Some WaveModule \<Longrightarrow> fname \<notin> unwritable w \<Longrightarrow>
   writeWAVE_body g fname (PyStr t) w
     = (Inl TypeError, opened w fname (fresh_fd (handles w)) [] 0)"
  by (simp add: writeWAVE_body_def io_bind_def io_lift_def wave_dot_open_bound
      wave_open_wb_result setparams_fixed writeframes_str)

lemma body_overflow:
  "g ''wave'' = Some WaveModule \<Longrightarrow> fname \<notin> unwritable w \<Longrightarrow>
   \<not> 36 + length bs < 4294967296 \<Longrightarrow>
   writeWAVE_body g fname (PyBytes bs) w
     = (Inl StructError, opened w fname (fresh_fd (handles w)) (wav_header 88200 @ bs) 4)"
  by (simp add: writeWAVE_body_def io_bind_def io_lift_def wave_dot_open_bound
      wave_open_wb_result setparams_fixed writeframes_overflow)

lemma body_returns:
  "g ''wave'' = Some WaveModule \<Longrightarrow> fname \<notin> unwritable w \<Longrightarrow>
   36 + length bs < 4294967296 \<Longrightarrow>
   writeWAVE_body g fname (PyBytes bs) w
     = (Inr (closed_writer (fresh_fd (handles w)) bs),
        w\<lparr>files := (files w)(fname \<mapsto> wav_header (length bs) @ bs)\<rparr>)"
  by (simp add: writeWAVE_body_def io_bind_def io_lift_def wave_dot_open_bound
      wave_open_wb_result setparams_fixed writeframes_result wave_close_result fresh_fd_notin)

lemma run_cases:
  obtains
    (not_bound) "g ''wave'' = None"
  | (not_module) f where "g ''wave'' = Some (PyFunction f)"
  | (bad_path) "g ''wave'' = Some WaveModule" "fname \<in> unwritable w"
  | (not_bytes) t where "g ''wave'' = Some WaveModule" "fname \<notin> unwritable w" "data = PyStr t"
  | (too_long) bs where "g ''wave'' = Some WaveModule" "fname \<notin> unwritable w"
      "data = PyBytes bs" "\<not> 36 + length bs < 4294967296"
  | (returns) bs where "g ''wave'' = Some WaveModule" "fname \<notin> unwritable w"
      "data = PyBytes bs" "36 + length bs < 4294967296"
proof (cases "g ''wave''")
  case None
  then show ?thesis by (rule not_bound)
next
  case (Some v)
  show ?thesis
  proof (cases v)
    case (PyFunction f)
    with Some show ?thesis by (simp add: not_module)
  next
    case WaveModule
    with Some have b: "g ''wave'' = Some WaveModule" by simp
    show ?thesis
    proof (cases data)
      case (PyStr t)
      with b show ?thesis using bad_path not_bytes by blast
    next
      case (PyBytes bs)
      with b show ?thesis using bad_path too_long returns by blast
    qed
  qed
qed

lemma body_returns_only:
  assumes "writeWAVE_body g fname data w = (Inr f, w')"
  shows "g ''wave'' = Some WaveModule \<and> fname \<notin> unwritable w \<and>
    (\<exists>bs. data = PyBytes bs \<and> 36 + length bs < 4294967296 \<and>
       f = closed_writer (fresh_fd (handles w)) bs \<and>
       w' = w\<lparr>files := (files w)(fname \<mapsto> wav_header (length bs) @ bs)\<rparr>)"
proof (cases rule: run_cases [where g = g and fname = fname and w = w and data = data])
  case not_bound
  with assms show ?thesis
    by (simp add: body_unbound)
next
  case (not_module f)
  with assms show ?thesis
    by (simp add: body_function)
next
  case bad_path
  with assms show ?thesis
    by (simp add: body_unwritable)
next
  case (not_bytes t)
  with assms show ?thesis
    by (simp add: body_str)
next
  case (too_long bs)
  with assms show ?thesis
    by (simp add: body_overflow)
next
  case (returns bs)
  with assms show ?thesis
    by (auto simp: body_returns)
qed

section \<open>The call and its body\<close>

lemma call_returns_body:
  "writeWAVE g fname data w = (Inr (), w')
     \<longleftrightarrow> (\<exists>f. writeWAVE_body g fname data w = (Inr f, w'))"
  by (auto simp: writeWAVE_def split: prod.splits sum.splits)

lemma call_raises_body:
  "writeWAVE g fname data w = (Inl e, w') \<longleftrightarrow> writeWAVE_body g fname data w = (Inl e, w')"
  by (auto simp: writeWAVE_def split: prod.splits sum.splits)

lemma snd_call: "snd (writeWAVE g fname data w) = snd (writeWAVE_body g fname data w)"
  by (auto simp: writeWAVE_def split: prod.splits sum.splits)

text \<open>
  The files and the refused paths after a call, whatever its outcome. A call changes at
  most the file at \<open>fname\<close>, and what it leaves there depends on the data alone.
\<close>

lemma files_after_call:
  "files (snd (writeWAVE g fname data w)) =
     (if g ''wave'' = Some WaveModule \<and> fname \<notin> unwritable w
      then (files w)(fname \<mapsto> out_bytes data) else files w)"
proof (cases rule: run_cases [where g = g and fname = fname and w = w and data = data])
  case not_bound
  then show ?thesis
    by (simp add: snd_call body_unbound)
next
  case (not_module f)
  then show ?thesis
    by (simp add: snd_call body_function)
next
  case bad_path
  then show ?thesis
    by (simp add: snd_call body_unwritable)
next
  case (not_bytes t)
  then show ?thesis
    by (simp add: snd_call body_str opened_def out_bytes_def)
next
  case (too_long bs)
  then show ?thesis
    by (simp add: snd_call body_overflow opened_def out_bytes_def)
next
  case (returns bs)
  then show ?thesis
    by (simp add: snd_call body_returns out_bytes_def)
qed

lemma unwritable_after_call: "unwritable (snd (writeWAVE g fname data w)) = unwritable w"
proof (cases rule: run_cases [where g = g and fname = fname and w = w and data = data])
  case not_bound
  then show ?thesis
    by (simp add: snd_call body_unbound)
next
  case (not_module f)
  then show ?thesis
    by (simp add: snd_call body_function)
next
  case bad_path
  then show ?thesis
    by (simp add: snd_call body_unwritable)
next
  case (not_bytes t)
  then show ?thesis
    by (simp add: snd_call body_str opened_def)
next
  case (too_long bs)
  then show ?thesis
    by (simp add: snd_call body_overflow opened_def)
next
  case (returns bs)
  then show ?thesis
    by (simp add: snd_call body_returns)
qed

section \<open>The header as a reader finds it\<close>

lemma header_fields:
  "header_format (wav_header n @ bs) = 1"
  "header_nchannels (wav_header n @ bs) = 1"
  "header_framerate (wav_header n @ bs) = 44100"
  "header_bits (wav_header n @ bs) = 16"
  by (simp_all add: header_format_def header_nchannels_def header_framerate_def header_bits_def
      field_def wav_header_def fmt_chunk_bytes le_val_def)

lemma header_data_size_wav: "n < 4294967296 \<Longrightarrow> header_data_size (wav_header n @ bs) = n"
  by (simp add: header_data_size_def field_def wav_header_def le_val_le32)

lemma payload_wav: "payload (wav_header n @ bs) = bs"
  by (simp add: payload_def)

lemma header_tags:
  "take 4 (wav_header n @ bs) = ascii ''RIFF''"
  "field (wav_header n @ bs) 8 4 = ascii ''WAVE''"
  "field (wav_header n @ bs) 12 4 = ascii ''fmt ''"
  "field (wav_header n @ bs) 36 4 = ascii ''data''"
  by (simp_all add: field_def wav_header_def fmt_chunk_def)


section \<open>The examples, evaluated\<close>

lemma g_wave_bound: "g_wave ''wave'' = Some WaveModule"
  by (simp add: g_wave_def)

lemma module_globals_unbound: "module_globals ''wave'' = None"
  by (simp add: module_globals_def)

lemma fresh_examples: "fresh_fd (handles w_empty) = 1" "fresh_fd (handles w_used) = 4"
  by (simp_all add: fresh_fd_def w_empty_def w_used_def)

lemma unwritable_examples:
  "''out.wav'' \<notin> unwritable w_empty" "''out.wav'' \<notin> unwritable w_used"
  "''/no/such/dir/out.wav'' \<in> unwritable w_empty"
  by (simp_all add: w_empty_def w_used_def)

lemma open_examples:
  "wave_open_wb ''/no/such/dir/out.wav'' w_empty = (Inl (OSError ''/no/such/dir/out.wav''), w_empty)"
  "wave_open_wb ''out.wav'' w_empty = (Inr (initfp 1), opened w_empty ''out.wav'' 1 [] 0)"
  "wave_open_wb ''out.wav'' w_used = (Inr (initfp 4), opened w_used ''out.wav'' 4 [] 0)"
  by (simp_all add: wave_open_wb_result unwritable_examples fresh_examples)

lemma call_returns_only:
  assumes "writeWAVE g fname data w = (Inr (), w')"
  shows "\<exists>bs. data = PyBytes bs \<and> 36 + length bs < 4294967296 \<and>
     writeWAVE_body g fname data w = (Inr (closed_writer (fresh_fd (handles w)) bs), w') \<and>
     w' = w\<lparr>files := (files w)(fname \<mapsto> wav_header (length bs) @ bs)\<rparr>"
proof -
  from assms obtain f where b: "writeWAVE_body g fname data w = (Inr f, w')"
    by (auto simp: call_returns_body)
  from body_returns_only [OF b] b show ?thesis
    by auto
qed

lemma call_returns:
  assumes "g ''wave'' = Some WaveModule" "fname \<notin> unwritable w" "36 + length bs < 4294967296"
  shows "writeWAVE g fname (PyBytes bs) w
     = (Inr (), w\<lparr>files := (files w)(fname \<mapsto> wav_header (length bs) @ bs)\<rparr>)"
  using assms by (simp add: writeWAVE_def body_returns)

lemma example_returns:
  assumes "''out.wav'' \<notin> unwritable w"
  shows "writeWAVE g_wave ''out.wav'' (PyBytes [1, 2, 3, 4]) w
     = (Inr (), w\<lparr>files := (files w)(''out.wav'' \<mapsto> wav_header 4 @ [1, 2, 3, 4])\<rparr>)"
proof -
  have l: "length [1, 2, 3, 4 :: byte] = 4"
    by simp
  show ?thesis
    using call_returns [of g_wave "''out.wav''" w "[1, 2, 3, 4]"] assms
    unfolding l by (simp add: g_wave_bound)
qed

section \<open>The module as it is written\<close>

text \<open>
  C3. In the name space that the module itself builds, every call of \<^verbatim>\<open>writeWAVE\<close>,
  whatever the path, the data and the state of the file system, raises \<^verbatim>\<open>NameError\<close>
  for the name \<^verbatim>\<open>wave\<close>, and it does so before any file operation: the world is
  returned as it was.
\<close>

theorem writeWAVE_module_name_error:
  "writeWAVE module_globals fname data w = (Inl (NameError ''wave''), w)"
  by (simp add: call_raises_body body_unbound module_globals_unbound)

text \<open>
  C1. The claim is that a call with a valid path and a sample buffer produces a file
  whose header declares one channel, 16-bit samples and 44100 Hz. In the module as it is
  written the call below, with a path that can be opened and two bytes of data, raises
  \<^verbatim>\<open>NameError\<close> and produces no file.
\<close>

theorem module_call_writes_no_file:
  "''out.wav'' \<notin> unwritable w_empty \<and>
   writeWAVE module_globals ''out.wav'' (PyBytes [0, 0]) w_empty
     = (Inl (NameError ''wave''), w_empty) \<and>
   files w_empty ''out.wav'' = None"
  by (simp add: call_raises_body body_unbound module_globals_unbound unwritable_examples)
     (simp add: w_empty_def)

text \<open>
  Once \<^verbatim>\<open>wave\<close> is bound to the standard module the header is as the claim says, for
  every buffer of bytes and every path that can be opened; this holds even for a buffer
  too long for the size fields, where the call raises after the file is written.
\<close>

lemma header_declared_when_wave_bound:
  assumes "g ''wave'' = Some WaveModule" "fname \<notin> unwritable w"
  shows "\<exists>c. files (snd (writeWAVE g fname (PyBytes bs) w)) fname = Some c \<and>
    header_nchannels c = 1 \<and> header_bits c = 16 \<and> header_framerate c = 44100"
  using assms by (simp add: files_after_call out_bytes_def header_fields)

text \<open>
  C5. The claim is that on a path that cannot be opened the call raises the error of the
  underlying open. In the module as it is written the open is never reached: where
  \<^verbatim>\<open>open\<close> itself would raise \<^verbatim>\<open>OSError\<close>, the call raises \<^verbatim>\<open>NameError\<close>.
\<close>

theorem module_call_unwritable_path:
  "''/no/such/dir/out.wav'' \<in> unwritable w_empty \<and>
   builtins_open_wb ''/no/such/dir/out.wav'' w_empty
     = (Inl (OSError ''/no/such/dir/out.wav''), w_empty) \<and>
   writeWAVE module_globals ''/no/such/dir/out.wav'' (PyBytes [0, 0]) w_empty
     = (Inl (NameError ''wave''), w_empty)"
  by (simp add: call_raises_body body_unbound module_globals_unbound unwritable_examples
      builtins_open_wb_def)

text \<open>
  Once \<^verbatim>\<open>wave\<close> is bound to the standard module the call raises what the open raised,
  and the world is as it was.
\<close>

lemma unwritable_path_when_wave_bound:
  assumes "g ''wave'' = Some WaveModule" "fname \<in> unwritable w"
  shows "writeWAVE g fname data w = (Inl (OSError fname), w)"
  using assms by (simp add: call_raises_body body_unwritable)

section \<open>Calls that return\<close>

text \<open>
  C2. Whenever a call of \<^verbatim>\<open>writeWAVE\<close> returns, in any name space and any world, the
  data was a buffer of bytes, the file at the path exists, the size field of its data
  chunk equals the byte length of the data, and the bytes after the header are the data.
\<close>

theorem payload_length_matches_data:
  assumes "writeWAVE g fname data w = (Inr (), w')"
  shows "\<exists>bs c. data = PyBytes bs \<and> files w' fname = Some c \<and>
     header_data_size c = length bs \<and> payload c = bs"
proof -
  from call_returns_only [OF assms] obtain bs where
    d: "data = PyBytes bs" and n: "36 + length bs < 4294967296" and
    w': "w' = w\<lparr>files := (files w)(fname \<mapsto> wav_header (length bs) @ bs)\<rparr>"
    by blast
  from n have "header_data_size (wav_header (length bs) @ bs) = length bs"
    by (simp add: header_data_size_wav)
  with d w' show ?thesis
    by (simp add: payload_wav)
qed

text \<open>A call that returns: four bytes written over an existing file.\<close>

theorem payload_length_matches_data_witness:
  "\<exists>w' c. writeWAVE g_wave ''out.wav'' (PyBytes [1, 2, 3, 4]) w_used = (Inr (), w') \<and>
     files w' ''out.wav'' = Some c \<and> header_data_size c = 4 \<and> payload c = [1, 2, 3, 4]"
proof -
  have r: "writeWAVE g_wave ''out.wav'' (PyBytes [1, 2, 3, 4]) w_used
      = (Inr (), w_used\<lparr>files := (files w_used)(''out.wav'' \<mapsto> wav_header 4 @ [1, 2, 3, 4])\<rparr>)"
    by (simp add: example_returns unwritable_examples)
  from payload_length_matches_data [OF r] r show ?thesis
    by auto
qed

text \<open>
  C7. Whenever a call returns, the frame count declared to the writer (its \<^verbatim>\<open>_nframes\<close>,
  set by \<^verbatim>\<open>setparams\<close>) is 44100 when the body ends, whatever the buffer, while the
  number of frames written is the byte length of the buffer divided by two.
\<close>

theorem declared_frame_count_fixed:
  assumes "writeWAVE g fname data w = (Inr (), w')"
  shows "\<exists>f bs. writeWAVE_body g fname data w = (Inr f, w') \<and> data = PyBytes bs \<and>
     nframes f = 44100 \<and> nframeswritten f = int (length bs) div 2"
proof -
  from call_returns_only [OF assms] show ?thesis
    by (auto simp: closed_writer_def frames_written_def header_set_def params_set_def)
qed

text \<open>Four bytes are two frames; the declared count is still 44100.\<close>

theorem declared_frame_count_fixed_witness:
  "\<exists>f w'. writeWAVE_body g_wave ''out.wav'' (PyBytes [1, 2, 3, 4]) w_empty = (Inr f, w') \<and>
     nframes f = 44100 \<and> nframeswritten f = 2"
proof -
  have r: "writeWAVE g_wave ''out.wav'' (PyBytes [1, 2, 3, 4]) w_empty
      = (Inr (), w_empty\<lparr>files := (files w_empty)(''out.wav'' \<mapsto> wav_header 4 @ [1, 2, 3, 4])\<rparr>)"
    by (simp add: example_returns unwritable_examples)
  from declared_frame_count_fixed [OF r] show ?thesis
    by auto
qed

text \<open>
  C8. Whenever a call returns, the compression type set on the writer is
  \<^verbatim>\<open>'NONE'\<close> with the name \<^verbatim>\<open>'noncompressed'\<close>, and the file is a RIFF container of
  form WAVE whose format chunk has the tag 1 (PCM) and is followed by the data chunk.
\<close>

theorem written_file_uncompressed_pcm:
  assumes "writeWAVE g fname data w = (Inr (), w')"
  shows "\<exists>f c. writeWAVE_body g fname data w = (Inr f, w') \<and>
     comptype f = Some ''NONE'' \<and> compname f = Some ''noncompressed'' \<and>
     files w' fname = Some c \<and> take 4 c = ascii ''RIFF'' \<and> field c 8 4 = ascii ''WAVE'' \<and>
     field c 12 4 = ascii ''fmt '' \<and> header_format c = 1 \<and> field c 36 4 = ascii ''data''"
proof -
  from call_returns_only [OF assms] obtain bs where
    b: "writeWAVE_body g fname data w = (Inr (closed_writer (fresh_fd (handles w)) bs), w')"
    and w': "w' = w\<lparr>files := (files w)(fname \<mapsto> wav_header (length bs) @ bs)\<rparr>"
    by blast
  have c: "files w' fname = Some (wav_header (length bs) @ bs)"
    using w' by simp
  have t: "comptype (closed_writer (fresh_fd (handles w)) bs) = Some ''NONE''"
    "compname (closed_writer (fresh_fd (handles w)) bs) = Some ''noncompressed''"
    by (simp_all add: closed_writer_def frames_written_def header_set_def params_set_def)
  from b c t header_tags [of "length bs" bs] header_fields(1) [of "length bs" bs]
  show ?thesis
    by blast
qed

theorem written_file_uncompressed_pcm_witness:
  "\<exists>f c w'. writeWAVE_body g_wave ''out.wav'' (PyBytes [1, 2, 3, 4]) w_empty = (Inr f, w') \<and>
     comptype f = Some ''NONE'' \<and> compname f = Some ''noncompressed'' \<and>
     files w' ''out.wav'' = Some c \<and> take 4 c = ascii ''RIFF'' \<and> header_format c = 1"
proof -
  have r: "writeWAVE g_wave ''out.wav'' (PyBytes [1, 2, 3, 4]) w_empty
      = (Inr (), w_empty\<lparr>files := (files w_empty)(''out.wav'' \<mapsto> wav_header 4 @ [1, 2, 3, 4])\<rparr>)"
    by (simp add: example_returns unwritable_examples)
  from written_file_uncompressed_pcm [OF r] show ?thesis
    by blast
qed

text \<open>
  C10. Two calls with the same path and the same data that both return leave the same
  bytes in the file at the path, whatever the name spaces and the worlds they ran in:
  the bytes are a function of the data alone.
\<close>

theorem same_data_same_bytes:
  assumes "writeWAVE g1 fname data w1 = (Inr (), w1')"
    and "writeWAVE g2 fname data w2 = (Inr (), w2')"
  shows "files w1' fname = files w2' fname \<and> files w1' fname = Some (out_bytes data)"
proof -
  from call_returns_only [OF assms(1)] call_returns_only [OF assms(2)] show ?thesis
    by (auto simp: out_bytes_def)
qed

text \<open>One call in a world with no such file, one in a world where the file exists.\<close>

theorem same_data_same_bytes_witness:
  "\<exists>w1' w2'. writeWAVE g_wave ''out.wav'' (PyBytes [1, 2, 3, 4]) w_empty = (Inr (), w1') \<and>
     writeWAVE g_wave ''out.wav'' (PyBytes [1, 2, 3, 4]) w_used = (Inr (), w2') \<and>
     files w_empty ''out.wav'' = None \<and> files w_used ''out.wav'' = Some [7, 7, 7] \<and>
     files w1' ''out.wav'' = files w2' ''out.wav''"
proof -
  have r1: "writeWAVE g_wave ''out.wav'' (PyBytes [1, 2, 3, 4]) w_empty
      = (Inr (), w_empty\<lparr>files := (files w_empty)(''out.wav'' \<mapsto> wav_header 4 @ [1, 2, 3, 4])\<rparr>)"
    by (simp add: example_returns unwritable_examples)
  have r2: "writeWAVE g_wave ''out.wav'' (PyBytes [1, 2, 3, 4]) w_used
      = (Inr (), w_used\<lparr>files := (files w_used)(''out.wav'' \<mapsto> wav_header 4 @ [1, 2, 3, 4])\<rparr>)"
    by (simp add: example_returns unwritable_examples)
  have e: "files w_empty ''out.wav'' = None" "files w_used ''out.wav'' = Some [7, 7, 7]"
    by (simp_all add: w_empty_def w_used_def)
  from same_data_same_bytes [OF r1 r2] r1 r2 e show ?thesis
    by blast
qed


section \<open>Calling twice\<close>

text \<open>
  C4. For every path and every two arguments, in any name space and any world, the file
  at the path after \<^verbatim>\<open>writeWAVE(fname, d1)\<close> followed by \<^verbatim>\<open>writeWAVE(fname, d2)\<close> is the
  file after \<^verbatim>\<open>writeWAVE(fname, d2)\<close> alone; and when the second call returns, the
  file holds the header and the bytes of \<open>d2\<close> and nothing of \<open>d1\<close>.
\<close>

theorem second_call_overwrites:
  "files (snd (writeWAVE g fname d2 (snd (writeWAVE g fname d1 w)))) fname
     = files (snd (writeWAVE g fname d2 w)) fname \<and>
   (writeWAVE g fname d2 (snd (writeWAVE g fname d1 w)) = (Inr (), w'')
      \<longrightarrow> files w'' fname = Some (out_bytes d2))"
proof -
  have "files w'' fname = Some (out_bytes d2)"
    if r: "writeWAVE g fname d2 (snd (writeWAVE g fname d1 w)) = (Inr (), w'')"
  proof -
    from call_returns_only [OF r] show ?thesis
      by (auto simp: out_bytes_def)
  qed
  then show ?thesis
    by (simp add: files_after_call unwritable_after_call)
qed

theorem second_call_overwrites_witness:
  "\<exists>w''. writeWAVE g_wave ''out.wav'' (PyBytes [5, 6])
       (snd (writeWAVE g_wave ''out.wav'' (PyBytes [1, 2, 3, 4]) w_used)) = (Inr (), w'') \<and>
     files w'' ''out.wav'' = Some (wav_header 2 @ [5, 6])"
proof -
  let ?w1 = "w_used\<lparr>files := (files w_used)(''out.wav'' \<mapsto> wav_header 4 @ [1, 2, 3, 4])\<rparr>"
  let ?w2 = "?w1\<lparr>files := (files ?w1)(''out.wav'' \<mapsto> wav_header 2 @ [5, 6])\<rparr>"
  have r1: "writeWAVE g_wave ''out.wav'' (PyBytes [1, 2, 3, 4]) w_used = (Inr (), ?w1)"
    by (simp add: example_returns unwritable_examples)
  have u: "''out.wav'' \<notin> unwritable ?w1"
    by (simp add: unwritable_examples)
  have r2: "writeWAVE g_wave ''out.wav'' (PyBytes [5, 6]) (snd (writeWAVE g_wave ''out.wav'' (PyBytes [1, 2, 3, 4]) w_used)) = (Inr (), ?w2)"
  proof -
    have l: "length [5, 6 :: byte] = 2"
      by simp
    show ?thesis
      unfolding r1 snd_conv
      using call_returns [of g_wave "''out.wav''" ?w1 "[5, 6]"] u
      unfolding l by (simp add: g_wave_bound)
  qed
  from second_call_overwrites [of g_wave "''out.wav''" "PyBytes [5, 6]" "PyBytes [1, 2, 3, 4]" w_used ?w2] r2
  have "files ?w2 ''out.wav'' = Some (out_bytes (PyBytes [5, 6]))"
    by blast
  with r2 show ?thesis
    by (simp add: out_bytes_def)
qed

section \<open>Exceptions\<close>

text \<open>
  On the standard library the body with the library as a parameter is the body of the
  function, and with \<open>file_flush\<close> as the flush \<open>wave_close_with\<close> is \<open>wave_close\<close>.
\<close>

lemma wave_close_with_flush: "wave_close_with file_flush = wave_close"
  by (rule ext, rule ext)
     (simp add: wave_close_with_def wave_close_def close_try_with_def close_try_def)

lemma std_wave_calls:
  "lib_open std_wave = wave_open_wb"
  "lib_setparams std_wave = (\<lambda>params s. io_lift (setparams params s))"
  "lib_writeframes std_wave = writeframes"
  "lib_close std_wave = wave_close"
  by (simp_all add: std_wave_def)

lemma io_bind_lift:
  "io_bind (io_lift (Inr a)) k = k a"
  "io_bind (io_lift (Inl e)) k = io_raise e"
  by (simp_all add: io_bind_def io_lift_def io_raise_def fun_eq_iff)

lemma body_on_resolve: "writeWAVE_body g fname data = writeWAVE_on (resolve g) fname data"
  by (cases "wave_dot_open g")
     (simp_all add: writeWAVE_body_def writeWAVE_on_def resolve_def err_bind_def io_bind_lift
      std_wave_calls)

text \<open>
  C6. A call of \<^verbatim>\<open>writeWAVE\<close> raises \<open>e\<close> and leaves \<open>w'\<close> exactly when the body does on
  what \<^verbatim>\<open>wave.open\<close> resolves to. For every library, that is for every behaviour of
  \<^verbatim>\<open>open\<close>, \<^verbatim>\<open>setparams\<close>, \<^verbatim>\<open>writeframes\<close> and \<^verbatim>\<open>close\<close> and so for every I/O or
  encoding failure inside them: an exception raised by the lookup of \<^verbatim>\<open>wave.open\<close> or
  by any of the four calls, in the state the body reaches it in, is the result of the
  body, with the world that this step left. Conversely every exception that leaves the
  body is the exception of one of these five steps, with the world of that step: nothing
  is caught, wrapped or tried again, and nothing runs after the step that raised.
\<close>

theorem errors_propagate_unmodified:
  "(writeWAVE g fname data w = (Inl e, w')
      \<longleftrightarrow> writeWAVE_on (resolve g) fname data w = (Inl e, w')) \<and>
   (wave = Inl e \<longrightarrow> writeWAVE_on wave fname data w = (Inl e, w)) \<and>
   (wave = Inr L \<and> lib_open L fname w = (Inl e, w1)
      \<longrightarrow> writeWAVE_on wave fname data w = (Inl e, w1)) \<and>
   (wave = Inr L \<and> lib_open L fname w = (Inr f1, w1) \<and>
    lib_setparams L (1, 2, 44100, 44100, ''NONE'', ''noncompressed'') f1 w1 = (Inl e, w2)
      \<longrightarrow> writeWAVE_on wave fname data w = (Inl e, w2)) \<and>
   (wave = Inr L \<and> lib_open L fname w = (Inr f1, w1) \<and>
    lib_setparams L (1, 2, 44100, 44100, ''NONE'', ''noncompressed'') f1 w1 = (Inr f2, w2) \<and>
    lib_writeframes L data f2 w2 = (Inl e, w3)
      \<longrightarrow> writeWAVE_on wave fname data w = (Inl e, w3)) \<and>
   (wave = Inr L \<and> lib_open L fname w = (Inr f1, w1) \<and>
    lib_setparams L (1, 2, 44100, 44100, ''NONE'', ''noncompressed'') f1 w1 = (Inr f2, w2) \<and>
    lib_writeframes L data f2 w2 = (Inr f3, w3) \<and> lib_close L f3 w3 = (Inl e, w4)
      \<longrightarrow> writeWAVE_on wave fname data w = (Inl e, w4)) \<and>
   (writeWAVE_on wave fname data w = (Inl e, w')
      \<longrightarrow> (wave = Inl e \<and> w' = w) \<or>
          (\<exists>L. wave = Inr L \<and>
             (lib_open L fname w = (Inl e, w') \<or>
              (\<exists>f1 w1. lib_open L fname w = (Inr f1, w1) \<and>
                 (lib_setparams L (1, 2, 44100, 44100, ''NONE'', ''noncompressed'') f1 w1
                    = (Inl e, w') \<or>
                  (\<exists>f2 w2. lib_setparams L (1, 2, 44100, 44100, ''NONE'', ''noncompressed'')
                       f1 w1 = (Inr f2, w2) \<and>
                     (lib_writeframes L data f2 w2 = (Inl e, w') \<or>
                      (\<exists>f3 w3. lib_writeframes L data f2 w2 = (Inr f3, w3) \<and>
                         lib_close L f3 w3 = (Inl e, w')))))))))"
proof -
  have link: "writeWAVE g fname data w = (Inl e, w')
      \<longleftrightarrow> writeWAVE_on (resolve g) fname data w = (Inl e, w')"
    by (simp add: call_raises_body body_on_resolve)
  have steps: "(wave = Inl e \<longrightarrow> writeWAVE_on wave fname data w = (Inl e, w)) \<and>
   (wave = Inr L \<and> lib_open L fname w = (Inl e, w1)
      \<longrightarrow> writeWAVE_on wave fname data w = (Inl e, w1)) \<and>
   (wave = Inr L \<and> lib_open L fname w = (Inr f1, w1) \<and>
    lib_setparams L (1, 2, 44100, 44100, ''NONE'', ''noncompressed'') f1 w1 = (Inl e, w2)
      \<longrightarrow> writeWAVE_on wave fname data w = (Inl e, w2)) \<and>
   (wave = Inr L \<and> lib_open L fname w = (Inr f1, w1) \<and>
    lib_setparams L (1, 2, 44100, 44100, ''NONE'', ''noncompressed'') f1 w1 = (Inr f2, w2) \<and>
    lib_writeframes L data f2 w2 = (Inl e, w3)
      \<longrightarrow> writeWAVE_on wave fname data w = (Inl e, w3)) \<and>
   (wave = Inr L \<and> lib_open L fname w = (Inr f1, w1) \<and>
    lib_setparams L (1, 2, 44100, 44100, ''NONE'', ''noncompressed'') f1 w1 = (Inr f2, w2) \<and>
    lib_writeframes L data f2 w2 = (Inr f3, w3) \<and> lib_close L f3 w3 = (Inl e, w4)
      \<longrightarrow> writeWAVE_on wave fname data w = (Inl e, w4))"
    by (simp add: writeWAVE_on_def io_bind_def io_lift_def)
  have conv: "writeWAVE_on wave fname data w = (Inl e, w')
      \<longrightarrow> (wave = Inl e \<and> w' = w) \<or>
          (\<exists>L. wave = Inr L \<and>
             (lib_open L fname w = (Inl e, w') \<or>
              (\<exists>f1 w1. lib_open L fname w = (Inr f1, w1) \<and>
                 (lib_setparams L (1, 2, 44100, 44100, ''NONE'', ''noncompressed'') f1 w1
                    = (Inl e, w') \<or>
                  (\<exists>f2 w2. lib_setparams L (1, 2, 44100, 44100, ''NONE'', ''noncompressed'')
                       f1 w1 = (Inr f2, w2) \<and>
                     (lib_writeframes L data f2 w2 = (Inl e, w') \<or>
                      (\<exists>f3 w3. lib_writeframes L data f2 w2 = (Inr f3, w3) \<and>
                         lib_close L f3 w3 = (Inl e, w'))))))))"
    by (auto simp: writeWAVE_on_def io_bind_def io_lift_def split: sum.splits prod.splits)
  from link steps conv show ?thesis
    by blast
qed

text \<open>
  One run for each step: the name is unbound; the path cannot be opened; the library
  rejects the parameters; the data is no buffer; the device is full when \<^verbatim>\<open>close\<close>
  flushes.
\<close>

lemma resolve_examples:
  "resolve module_globals = Inl (NameError ''wave'')"
  "resolve g_wave = Inr std_wave"
  by (simp_all add: resolve_def err_bind_def wave_dot_open_unbound wave_dot_open_bound
      module_globals_unbound g_wave_bound)

lemma other_library_calls:
  "lib_open wave_bytes_comptype = wave_open_wb"
  "lib_setparams wave_bytes_comptype
     = (\<lambda>params s. io_raise (WaveError ''unsupported compression type''))"
  "lib_open wave_no_space = wave_open_wb"
  "lib_setparams wave_no_space = (\<lambda>params s. io_lift (setparams params s))"
  "lib_writeframes wave_no_space = writeframes"
  "lib_close wave_no_space = wave_close_with flush_no_space"
  by (simp_all add: wave_bytes_comptype_def wave_no_space_def std_wave_def)

lemma wave_close_no_space:
  assumes "fd \<notin> fst ` set (handles w)"
  shows "wave_close_with flush_no_space
           ((frames_written fd bs)\<lparr>datalength := int (length bs)\<rparr>) (opened w fname fd c p)
     = (Inl (OSError fname), w\<lparr>files := (files w)(fname \<mapsto> c)\<rparr>)"
  using remove_fd_fresh [OF assms]
  by (simp add: wave_close_with_def close_try_with_def close_finally_def
      ensure_header_written_def frames_written_def header_set_def params_set_def initfp_def
      io_defs flush_no_space_def file_close_def opened_def remove_fd_def)

lemma writeframes_example:
  "writeframes (PyBytes [1, 2, 3, 4]) (params_set 1) (opened w_empty ''out.wav'' 1 [] 0)
     = (Inr ((frames_written 1 [1, 2, 3, 4])\<lparr>datalength := 4\<rparr>),
        opened w_empty ''out.wav'' 1 (wav_header 4 @ [1, 2, 3, 4]) 48)"
proof -
  have l: "length [1, 2, 3, 4 :: byte] = 4"
    by simp
  show ?thesis
    using writeframes_result [of "[1, 2, 3, 4]" 1 w_empty "''out.wav''"]
    unfolding l by simp
qed

lemma close_example:
  "wave_close_with flush_no_space ((frames_written 1 [1, 2, 3, 4])\<lparr>datalength := 4\<rparr>)
     (opened w_empty ''out.wav'' 1 (wav_header 4 @ [1, 2, 3, 4]) 48)
   = (Inl (OSError ''out.wav''),
      w_empty\<lparr>files := (files w_empty)(''out.wav'' \<mapsto> wav_header 4 @ [1, 2, 3, 4])\<rparr>)"
proof -
  have l: "length [1, 2, 3, 4 :: byte] = 4"
    by simp
  have h: "1 \<notin> fst ` set (handles w_empty)"
    by (simp add: w_empty_def)
  show ?thesis
    using wave_close_no_space [OF h, of "[1, 2, 3, 4]" "''out.wav''"
        "wav_header 4 @ [1, 2, 3, 4]" 48]
    unfolding l by simp
qed

theorem errors_propagate_unmodified_witness:
  "writeWAVE module_globals ''out.wav'' (PyBytes [1, 2, 3, 4]) w_used
     = (Inl (NameError ''wave''), w_used) \<and>
   writeWAVE g_wave ''/no/such/dir/out.wav'' (PyBytes [1, 2, 3, 4]) w_empty
     = (Inl (OSError ''/no/such/dir/out.wav''), w_empty) \<and>
   writeWAVE_on (Inr wave_bytes_comptype) ''out.wav'' (PyBytes [1, 2, 3, 4]) w_empty
     = (Inl (WaveError ''unsupported compression type''), opened w_empty ''out.wav'' 1 [] 0) \<and>
   writeWAVE g_wave ''out.wav'' (PyStr ''abc'') w_empty
     = (Inl TypeError, opened w_empty ''out.wav'' 1 [] 0) \<and>
   writeWAVE_on (Inr wave_no_space) ''out.wav'' (PyBytes [1, 2, 3, 4]) w_empty
     = (Inl (OSError ''out.wav''),
        w_empty\<lparr>files := (files w_empty)(''out.wav'' \<mapsto> wav_header 4 @ [1, 2, 3, 4])\<rparr>)"
proof -
  note link = errors_propagate_unmodified [THEN conjunct1]
  note at_lookup = errors_propagate_unmodified [THEN conjunct2, THEN conjunct1, rule_format]
  note at_open = errors_propagate_unmodified [THEN conjunct2, THEN conjunct2, THEN conjunct1,
      rule_format]
  note at_setparams = errors_propagate_unmodified [THEN conjunct2, THEN conjunct2,
      THEN conjunct2, THEN conjunct1, rule_format]
  note at_writeframes = errors_propagate_unmodified [THEN conjunct2, THEN conjunct2,
      THEN conjunct2, THEN conjunct2, THEN conjunct1, rule_format]
  note at_close = errors_propagate_unmodified [THEN conjunct2, THEN conjunct2,
      THEN conjunct2, THEN conjunct2, THEN conjunct2, THEN conjunct1, rule_format]
  have "writeWAVE_on (resolve module_globals) ''out.wav'' (PyBytes [1, 2, 3, 4]) w_used
      = (Inl (NameError ''wave''), w_used)"
    by (rule at_lookup) (rule resolve_examples(1))
  then have 1: "writeWAVE module_globals ''out.wav'' (PyBytes [1, 2, 3, 4]) w_used
      = (Inl (NameError ''wave''), w_used)"
    by (simp only: link)
  have "writeWAVE_on (resolve g_wave) ''/no/such/dir/out.wav'' (PyBytes [1, 2, 3, 4]) w_empty
      = (Inl (OSError ''/no/such/dir/out.wav''), w_empty)"
    by (rule at_open [where L = std_wave])
       (simp add: resolve_examples(2) std_wave_calls open_examples(1))
  then have 2: "writeWAVE g_wave ''/no/such/dir/out.wav'' (PyBytes [1, 2, 3, 4]) w_empty
      = (Inl (OSError ''/no/such/dir/out.wav''), w_empty)"
    by (simp only: link)
  have 3: "writeWAVE_on (Inr wave_bytes_comptype) ''out.wav'' (PyBytes [1, 2, 3, 4]) w_empty
      = (Inl (WaveError ''unsupported compression type''), opened w_empty ''out.wav'' 1 [] 0)"
    by (rule at_setparams [where L = wave_bytes_comptype and ?f1.0 = "initfp 1"
          and ?w1.0 = "opened w_empty ''out.wav'' 1 [] 0"])
       (simp add: other_library_calls open_examples(2) io_raise_def)
  have "writeWAVE_on (resolve g_wave) ''out.wav'' (PyStr ''abc'') w_empty
      = (Inl TypeError, opened w_empty ''out.wav'' 1 [] 0)"
    by (rule at_writeframes [where L = std_wave and ?f1.0 = "initfp 1"
          and ?w1.0 = "opened w_empty ''out.wav'' 1 [] 0" and ?f2.0 = "params_set 1"
          and ?w2.0 = "opened w_empty ''out.wav'' 1 [] 0"])
       (simp add: resolve_examples(2) std_wave_calls open_examples(2) setparams_fixed
        io_lift_def writeframes_str)
  then have 4: "writeWAVE g_wave ''out.wav'' (PyStr ''abc'') w_empty
      = (Inl TypeError, opened w_empty ''out.wav'' 1 [] 0)"
    by (simp only: link)
  have 5: "writeWAVE_on (Inr wave_no_space) ''out.wav'' (PyBytes [1, 2, 3, 4]) w_empty
      = (Inl (OSError ''out.wav''),
         w_empty\<lparr>files := (files w_empty)(''out.wav'' \<mapsto> wav_header 4 @ [1, 2, 3, 4])\<rparr>)"
    by (rule at_close [where L = wave_no_space and ?f1.0 = "initfp 1"
          and ?w1.0 = "opened w_empty ''out.wav'' 1 [] 0" and ?f2.0 = "params_set 1"
          and ?w2.0 = "opened w_empty ''out.wav'' 1 [] 0"
          and ?f3.0 = "(frames_written 1 [1, 2, 3, 4])\<lparr>datalength := 4\<rparr>"
          and ?w3.0 = "opened w_empty ''out.wav'' 1 (wav_header 4 @ [1, 2, 3, 4]) 48"])
       (simp only: other_library_calls open_examples(2) setparams_fixed io_lift_def
        writeframes_example close_example simp_thms)
  from 1 2 3 4 5 show ?thesis
    by (simp only: simp_thms)
qed

section \<open>The file handle\<close>

text \<open>
  The claim C9 says that no handle opened by a call is open when the call ends, also
  when writing the frames fails. With \<^verbatim>\<open>wave\<close> bound and a \<^verbatim>\<open>str\<close> as data, the file
  is opened, \<^verbatim>\<open>writeframes\<close> raises \<^verbatim>\<open>TypeError\<close>, and the handle is still open.
\<close>

theorem handle_left_open_counterexample:
  "writeWAVE g_wave ''out.wav'' (PyStr ''abc'') w_empty
     = (Inl TypeError, opened w_empty ''out.wav'' 1 [] 0) \<and>
   open_fds w_empty = [] \<and>
   open_fds (opened w_empty ''out.wav'' 1 [] 0) = [1]"
  by (simp add: call_raises_body body_str g_wave_bound unwritable_examples fresh_examples)
     (simp add: open_fds_def opened_def w_empty_def)

text \<open>
  C9, amended. When the call returns, the open files are those of before the call. So
  they are when the lookup of \<^verbatim>\<open>wave.open\<close> raises, and when the open raises. When
  the file was opened and a later step raises, the body never reaches \<^verbatim>\<open>close\<close>: the
  handle that the open returned, not open before the call, is open in the world that
  the caller gets.
\<close>

theorem handle_closed_unless_later_step_raises:
  "(writeWAVE g fname data w = (Inr (), w') \<longrightarrow> open_fds w' = open_fds w) \<and>
   (wave_dot_open g = Inl e \<longrightarrow> open_fds (snd (writeWAVE g fname data w)) = open_fds w) \<and>
   (wave_open_wb fname w = (Inl e, w1)
      \<longrightarrow> open_fds (snd (writeWAVE g fname data w)) = open_fds w) \<and>
   (wave_dot_open g = Inr () \<and> wave_open_wb fname w = (Inr f, w1) \<and>
    writeWAVE g fname data w = (Inl e, w')
      \<longrightarrow> (\<exists>fd. wfile f = Some fd \<and> fd \<notin> set (open_fds w) \<and> open_fds w' = fd # open_fds w))"
proof -
  have fresh: "fresh_fd (handles w) \<notin> set (open_fds w)"
    using fresh_fd_notin [of "handles w"] by (simp add: open_fds_def)
  show ?thesis
  proof (cases rule: run_cases [where g = g and fname = fname and w = w and data = data])
    case not_bound
    then show ?thesis
      by (simp add: call_raises_body call_returns_body snd_call body_unbound
          wave_dot_open_unbound)
  next
    case (not_module f)
    then show ?thesis
      by (simp add: call_raises_body call_returns_body snd_call body_function
          wave_dot_open_function)
  next
    case bad_path
    then show ?thesis
      by (auto simp: call_raises_body call_returns_body snd_call body_unwritable
          wave_dot_open_bound wave_open_wb_result)
  next
    case (not_bytes t)
    with fresh show ?thesis
      by (simp add: call_raises_body call_returns_body snd_call body_str
          wave_dot_open_bound wave_open_wb_result)
         (auto simp: initfp_def open_fds_def opened_def)
  next
    case (too_long bs)
    with fresh show ?thesis
      by (simp add: call_raises_body call_returns_body snd_call body_overflow
          wave_dot_open_bound wave_open_wb_result)
         (auto simp: initfp_def open_fds_def opened_def)
  next
    case (returns bs)
    then show ?thesis
      by (simp add: call_raises_body call_returns_body snd_call body_returns
          wave_dot_open_bound wave_open_wb_result)
         (auto simp: open_fds_def)
  qed
qed

theorem handle_closed_unless_later_step_raises_witness:
  "open_fds w_used = [3] \<and>
   open_fds (snd (writeWAVE g_wave ''out.wav'' (PyBytes [1, 2, 3, 4]) w_used)) = [3] \<and>
   open_fds (snd (writeWAVE module_globals ''out.wav'' (PyBytes [1, 2, 3, 4]) w_used)) = [3] \<and>
   open_fds w_empty = [] \<and>
   open_fds (snd (writeWAVE g_wave ''/no/such/dir/out.wav'' (PyBytes [1, 2, 3, 4]) w_empty)) = [] \<and>
   open_fds (snd (writeWAVE g_wave ''out.wav'' (PyStr ''abc'') w_used)) = [4, 3]"
proof -
  have n: "wave_dot_open module_globals = Inl (NameError ''wave'')"
    by (simp add: wave_dot_open_unbound module_globals_unbound)
  have b: "wave_dot_open g_wave = Inr ()"
    by (simp add: wave_dot_open_bound g_wave_bound)
  have u: "open_fds w_used = [3]" "open_fds w_empty = []"
    by (simp_all add: open_fds_def w_used_def w_empty_def)
  have 1: "open_fds (snd (writeWAVE g_wave ''out.wav'' (PyBytes [1, 2, 3, 4]) w_used))
      = open_fds w_used"
    using handle_closed_unless_later_step_raises [where g = g_wave and fname = "''out.wav''"
        and data = "PyBytes [1, 2, 3, 4]" and w = w_used
        and w' = "w_used\<lparr>files := (files w_used)(''out.wav'' \<mapsto> wav_header 4 @ [1, 2, 3, 4])\<rparr>"]
      example_returns [of w_used] unwritable_examples(2)
    by simp
  have 2: "open_fds (snd (writeWAVE module_globals ''out.wav'' (PyBytes [1, 2, 3, 4]) w_used))
      = open_fds w_used"
    using handle_closed_unless_later_step_raises [where g = module_globals
        and e = "NameError ''wave''" and fname = "''out.wav''"
        and data = "PyBytes [1, 2, 3, 4]" and w = w_used] n
    by blast
  have 3: "open_fds (snd (writeWAVE g_wave ''/no/such/dir/out.wav'' (PyBytes [1, 2, 3, 4]) w_empty))
      = open_fds w_empty"
    using handle_closed_unless_later_step_raises [where g = g_wave
        and e = "OSError ''/no/such/dir/out.wav''" and fname = "''/no/such/dir/out.wav''"
        and data = "PyBytes [1, 2, 3, 4]" and w = w_empty and ?w1.0 = w_empty]
      open_examples(1)
    by blast
  have r: "writeWAVE g_wave ''out.wav'' (PyStr ''abc'') w_used
      = (Inl TypeError, opened w_used ''out.wav'' 4 [] 0)"
    by (simp add: call_raises_body body_str g_wave_bound unwritable_examples fresh_examples)
  have "\<exists>fd. wfile (initfp 4) = Some fd \<and> fd \<notin> set (open_fds w_used) \<and>
      open_fds (opened w_used ''out.wav'' 4 [] 0) = fd # open_fds w_used"
    using handle_closed_unless_later_step_raises [where g = g_wave and e = TypeError
        and fname = "''out.wav''" and data = "PyStr ''abc''" and w = w_used
        and ?w1.0 = "opened w_used ''out.wav'' 4 [] 0" and f = "initfp 4"
        and w' = "opened w_used ''out.wav'' 4 [] 0"]
      b open_examples(3) r
    by blast
  then have 4: "open_fds (snd (writeWAVE g_wave ''out.wav'' (PyStr ''abc'') w_used)) = [4, 3]"
    by (simp add: r u initfp_def)
  from u 1 2 3 4 show ?thesis
    by simp
qed

end
